theory Spec2Isabelle
  imports Complex_Main
begin

section \<open>JavaScript values as the front end sees them\<close>

text \<open>
  The React components of the repository (\<^verbatim>\<open>src/App.js\<close>, \<^verbatim>\<open>src/DocumentUploader.js\<close> and
  the \<^verbatim>\<open>DocumentUpload\<close> component) handle values that come out of \<^verbatim>\<open>response.json()\<close>:
  \<^verbatim>\<open>null\<close>, booleans, numbers, strings, arrays and plain objects, and \<^verbatim>\<open>undefined\<close> for a
  property that is not there. Numbers are kept abstract (type \<open>'n\<close>): the code only tests
  them for truthiness and converts them to strings, and both operations are taken from the
  engine.
\<close>

datatype 'n jsval =
    JUndefined
  | JNull
  | JBool bool
  | JNum 'n
  | JStr string
  | JArr "'n jsval list"
  | JObj "(string \<times> 'n jsval) list"

text \<open>An exception object: its \<^verbatim>\<open>name\<close> and its \<^verbatim>\<open>message\<close>.\<close>

datatype js_error = JsError string string

fun message :: "js_error \<Rightarrow> string" where
  "message (JsError n m) = m"

text \<open>
  What the JavaScript engine fixes and the repository does not: which numbers are falsy
  (\<^verbatim>\<open>0\<close>, \<^verbatim>\<open>-0\<close>, \<^verbatim>\<open>NaN\<close>), how a number prints, and the wording of the two
  \<^verbatim>\<open>TypeError\<close>s the components can meet: reading a property of \<^verbatim>\<open>null\<close> or \<^verbatim>\<open>undefined\<close>,
  and converting to a string an object that has no usable \<^verbatim>\<open>toString\<close>.
\<close>

record 'n engine =
  num_falsy :: "'n \<Rightarrow> bool"
  num_to_string :: "'n \<Rightarrow> string"
  nullish_read_message :: "'n jsval \<Rightarrow> string \<Rightarrow> string"
  to_primitive_message :: string

fun truthy :: "'n engine \<Rightarrow> 'n jsval \<Rightarrow> bool" where
  "truthy e JUndefined = False"
| "truthy e JNull = False"
| "truthy e (JBool b) = b"
| "truthy e (JNum n) = (\<not> num_falsy e n)"
| "truthy e (JStr s) = (s \<noteq> [])"
| "truthy e (JArr xs) = True"
| "truthy e (JObj kvs) = True"

text \<open>
  \<^verbatim>\<open>ToString\<close>, which \<^verbatim>\<open>new Error(v)\<close> applies to its argument. An array prints its
  elements joined by commas, \<^verbatim>\<open>null\<close> and \<^verbatim>\<open>undefined\<close> elements as the empty string. A
  plain object prints as \<^verbatim>\<open>[object Object]\<close> through the inherited \<^verbatim>\<open>toString\<close>; when it
  has a key \<^verbatim>\<open>toString\<close> of its own, that value (parsed from JSON) is not callable, the
  inherited \<^verbatim>\<open>valueOf\<close> returns the object itself, and the conversion throws.
\<close>

fun to_string :: "'n engine \<Rightarrow> 'n jsval \<Rightarrow> js_error + string"
  and join_elems :: "'n engine \<Rightarrow> 'n jsval list \<Rightarrow> js_error + string" where
  "to_string e JUndefined = Inr ''undefined''"
| "to_string e JNull = Inr ''null''"
| "to_string e (JBool b) = Inr (if b then ''true'' else ''false'')"
| "to_string e (JNum n) = Inr (num_to_string e n)"
| "to_string e (JStr s) = Inr s"
| "to_string e (JArr xs) = join_elems e xs"
| "to_string e (JObj kvs) =
     (if map_of kvs ''toString'' = None then Inr ''[object Object]''
      else Inl (JsError ''TypeError'' (to_primitive_message e)))"
| "join_elems e [] = Inr []"
| "join_elems e (x # xs) =
     (case (if x = JUndefined \<or> x = JNull then Inr [] else to_string e x) of
        Inl err \<Rightarrow> Inl err
      | Inr s \<Rightarrow>
          if xs = [] then Inr s
          else (case join_elems e xs of
                  Inl err \<Rightarrow> Inl err
                | Inr t \<Rightarrow> Inr (s @ '','' @ t)))"

text \<open>
  Reading a property \<^verbatim>\<open>v.p\<close>. On \<^verbatim>\<open>null\<close> and \<^verbatim>\<open>undefined\<close> the engine throws a
  \<^verbatim>\<open>TypeError\<close>; on a plain object the value stored under the key, else \<^verbatim>\<open>undefined\<close>. The
  components read only \<^verbatim>\<open>error\<close>, \<^verbatim>\<open>analysis\<close> and \<^verbatim>\<open>response\<close>, which no primitive or
  array has, so those reads give \<^verbatim>\<open>undefined\<close>.
\<close>

fun get_prop :: "'n engine \<Rightarrow> 'n jsval \<Rightarrow> string \<Rightarrow> js_error + 'n jsval" where
  "get_prop e JUndefined p = Inl (JsError ''TypeError'' (nullish_read_message e JUndefined p))"
| "get_prop e JNull p = Inl (JsError ''TypeError'' (nullish_read_message e JNull p))"
| "get_prop e (JObj kvs) p = Inr (case map_of kvs p of None \<Rightarrow> JUndefined | Some v \<Rightarrow> v)"
| "get_prop e (JBool b) p = Inr JUndefined"
| "get_prop e (JNum n) p = Inr JUndefined"
| "get_prop e (JStr s) p = Inr JUndefined"
| "get_prop e (JArr xs) p = Inr JUndefined"

section \<open>The network as the components see it\<close>

record js_file =
  name :: string
  type :: string

record request =
  url :: string
  http_method :: string
  body :: "(string \<times> js_file) list"

text \<open>
  \<^verbatim>\<open>fetch\<close> either rejects (a network error) or resolves to a response with its \<^verbatim>\<open>ok\<close>
  flag; \<^verbatim>\<open>response.json()\<close> in turn rejects (the body is not JSON) or resolves to a value.
\<close>

datatype 'n json_outcome = JsonRejects js_error | JsonResolves "'n jsval"

datatype 'n fetch_outcome = FetchRejects js_error | FetchResponse bool "'n json_outcome"

definition API_BASE_URL :: string where
  "API_BASE_URL = ''http://localhost:3001''"

section \<open>App.js\<close>

record status =
  status_type :: string
  status_message :: string

record 'n app_state =
  uploadStatus :: "status option"
  loading :: bool
  analysis :: "'n jsval"
  response :: "'n jsval"
  error :: "string option"

definition resetState :: "'n app_state \<Rightarrow> 'n app_state" where
  "resetState s = s\<lparr>uploadStatus := None, analysis := JNull, response := JNull, error := None\<rparr>"

text \<open>
  \<^verbatim>\<open>handleUpload\<close>: the \<^verbatim>\<open>try\<close> body sets the success status and then reads
  \<^verbatim>\<open>data.analysis\<close> and \<^verbatim>\<open>data.response\<close>; a read that throws enters the \<^verbatim>\<open>catch\<close> branch
  with the state as the setters before it left it; \<^verbatim>\<open>finally\<close> clears \<^verbatim>\<open>loading\<close>. The
  second component of the result is what was written with \<^verbatim>\<open>console.error\<close>.
\<close>

definition handleUpload_try :: "'n engine \<Rightarrow> 'n jsval \<Rightarrow> 'n app_state \<Rightarrow> js_error \<times> 'n app_state + 'n app_state" where
  "handleUpload_try e data s =
     (let s1 = s\<lparr>uploadStatus := Some \<lparr>status_type = ''success'',
                 status_message = ''Document uploaded and processed successfully!''\<rparr>\<rparr>
      in case get_prop e data ''analysis'' of
           Inl err \<Rightarrow> Inl (err, s1)
         | Inr a \<Rightarrow>
             (let s2 = s1\<lparr>analysis := a\<rparr>
              in case get_prop e data ''response'' of
                   Inl err \<Rightarrow> Inl (err, s2)
                 | Inr r \<Rightarrow> Inr (s2\<lparr>response := r\<rparr>)))"

definition handleUpload_catch :: "js_error \<Rightarrow> 'n app_state \<Rightarrow> 'n app_state" where
  "handleUpload_catch err s =
     (let errorMessage =
            (if message err \<noteq> [] then message err
             else ''Error uploading document. Please try again.'')
      in s\<lparr>error := Some errorMessage,
           uploadStatus := Some \<lparr>status_type = ''error'', status_message = errorMessage\<rparr>\<rparr>)"

definition handleUpload :: "'n engine \<Rightarrow> 'n jsval \<Rightarrow> 'n app_state \<Rightarrow> 'n app_state \<times> js_error list" where
  "handleUpload e data s0 =
     (let s1 = resetState (s0\<lparr>loading := True\<rparr>)
      in case handleUpload_try e data s1 of
           Inr s2 \<Rightarrow> (s2\<lparr>loading := False\<rparr>, [])
         | Inl (err, s2) \<Rightarrow> ((handleUpload_catch err s2)\<lparr>loading := False\<rparr>, [err]))"





section \<open>The DocumentUpload component\<close>

record du_state =
  du_uploadStatus :: "string option"
  du_error :: "string option"

text \<open>
  What one call of the drop handler leaves behind: the component's state, the requests
  handed to \<^verbatim>\<open>fetch\<close>, the arguments \<^verbatim>\<open>onUpload\<close> was called with, and how the promise
  of the \<^verbatim>\<open>async\<close> handler settled (\<open>None\<close>: fulfilled; \<open>Some err\<close>: rejected with an error
  that no \<^verbatim>\<open>catch\<close> took).
\<close>

record 'n drop_run =
  drop_state :: du_state
  drop_requests :: "request list"
  drop_calls :: "'n jsval list"
  drop_promise :: "js_error option"

definition allowedTypes :: "string list" where
  "allowedTypes = [''application/pdf'', ''application/json'', ''text/plain'']"

definition upload_request :: "js_file \<Rightarrow> request" where
  "upload_request file = \<lparr>url = API_BASE_URL @ ''/upload'', http_method = ''POST'', body = [(''file'', file)]\<rparr>"

text \<open>The \<^verbatim>\<open>catch\<close> branch of the drop handler.\<close>

definition onDrop_catch :: "js_error \<Rightarrow> du_state \<Rightarrow> du_state" where
  "onDrop_catch err s =
     s\<lparr>du_error := Some (if message err \<noteq> [] then message err
                         else ''Failed to upload file. Please try again.''),
       du_uploadStatus := Some ''error''\<rparr>"

text \<open>
  The \<^verbatim>\<open>try\<close> body once \<^verbatim>\<open>fetch\<close> has settled: the state and the \<^verbatim>\<open>onUpload\<close> calls made, and
  the error thrown, if one was. The \<^verbatim>\<open>onUpload\<close> property is \<open>None\<close> when it is not passed;
  a callback returns \<open>None\<close>, or \<open>Some err\<close> when it throws.
\<close>

definition onDrop_try ::
  "'n engine \<Rightarrow> ('n jsval \<Rightarrow> js_error option) option \<Rightarrow> 'n fetch_outcome \<Rightarrow> du_state
     \<Rightarrow> du_state \<times> 'n jsval list \<times> js_error option" where
  "onDrop_try e onUpload r s =
     (case r of
        FetchRejects err \<Rightarrow> (s, [], Some err)
      | FetchResponse ok js \<Rightarrow>
          if \<not> ok then
            (case js of
               JsonRejects err \<Rightarrow> (s, [], Some err)
             | JsonResolves errorData \<Rightarrow>
                 (case get_prop e errorData ''error'' of
                    Inl err \<Rightarrow> (s, [], Some err)
                  | Inr v \<Rightarrow>
                      (case to_string e (if truthy e v then v else JStr ''Upload failed'') of
                         Inl err \<Rightarrow> (s, [], Some err)
                       | Inr msg \<Rightarrow> (s, [], Some (JsError ''Error'' msg)))))
          else
            (case js of
               JsonRejects err \<Rightarrow> (s, [], Some err)
             | JsonResolves data \<Rightarrow>
                 (let s1 = s\<lparr>du_uploadStatus := Some ''success''\<rparr>
                  in case onUpload of
                       None \<Rightarrow> (s1, [], None)
                     | Some f \<Rightarrow> (s1, [data], f data))))"

definition onDrop ::
  "'n engine \<Rightarrow> (request \<Rightarrow> 'n fetch_outcome) \<Rightarrow> ('n jsval \<Rightarrow> js_error option) option
     \<Rightarrow> js_file list \<Rightarrow> du_state \<Rightarrow> 'n drop_run" where
  "onDrop e fetch onUpload acceptedFiles s0 =
     (let s1 = s0\<lparr>du_error := None, du_uploadStatus := Some ''uploading''\<rparr>
      in case acceptedFiles of
           [] \<Rightarrow>
             \<lparr>drop_state = s1, drop_requests = [], drop_calls = [],
              drop_promise = Some (JsError ''TypeError'' (nullish_read_message e JUndefined ''type''))\<rparr>
         | file # rest \<Rightarrow>
             if type file \<notin> set allowedTypes then
               \<lparr>drop_state = s1\<lparr>du_error := Some ''Invalid file type. Please upload PDF, JSON, or TXT files only.'',
                                du_uploadStatus := None\<rparr>,
                drop_requests = [], drop_calls = [], drop_promise = None\<rparr>
             else
               (case onDrop_try e onUpload (fetch (upload_request file)) s1 of
                  (s2, calls, None) \<Rightarrow>
                    \<lparr>drop_state = s2, drop_requests = [upload_request file], drop_calls = calls,
                     drop_promise = None\<rparr>
                | (s2, calls, Some err) \<Rightarrow>
                    \<lparr>drop_state = onDrop_catch err s2, drop_requests = [upload_request file],
                     drop_calls = calls, drop_promise = None\<rparr>))"

text \<open>The options each component passes to \<^verbatim>\<open>useDropzone\<close>.\<close>

record dropzone_options =
  accept :: "(string \<times> string list) list"
  maxFiles :: "nat option"
  multiple :: bool

definition DocumentUpload_options :: dropzone_options where
  "DocumentUpload_options =
     \<lparr>accept = [(''application/pdf'', [''.pdf'']), (''application/json'', [''.json'']),
                (''text/plain'', [''.txt''])],
      maxFiles = None, multiple = False\<rparr>"

section \<open>DocumentUploader.js\<close>

definition ALLOWED_FILE_TYPES :: "(string \<times> string list) list" where
  "ALLOWED_FILE_TYPES =
     [(''application/pdf'', [''.pdf'']), (''application/json'', [''.json'']), (''text/plain'', [''.txt''])]"

definition DocumentUploader_options :: dropzone_options where
  "DocumentUploader_options = \<lparr>accept = ALLOWED_FILE_TYPES, maxFiles = Some 1, multiple = False\<rparr>"

text \<open>Its drop handler hands the first accepted file to \<^verbatim>\<open>onUpload\<close>; the result is the list of calls made.\<close>

definition DocumentUploader_onDrop :: "js_file list \<Rightarrow> js_file list" where
  "DocumentUploader_onDrop acceptedFiles =
     (if length acceptedFiles > 0 then [acceptedFiles ! 0] else [])"

section \<open>The document pipeline\<close>

text \<open>
  The React components post a file to \<^verbatim>\<open>/upload\<close>; the pipeline behind that endpoint
  (Shared Memory, Classifier Agent, JSON Agent, Email Agent) is described by the README
  and the specification, and its Python sources are not among the repository's files
  under \<^verbatim>\<open>src/\<close>. The definitions of this section follow the specification's sections 3
  and 4 word by word. Whatever the specification leaves to a library or to a table it
  does not print is a field of \<open>pipeline_env\<close>.
\<close>

text \<open>
  Modelled from the spec: the Document of section 3 and its \<open>file_type\<close> enumeration,
  whose declarations are not under \<^verbatim>\<open>src/\<close>.
\<close>

datatype file_type = PDF | JSON | EMAIL | UNKNOWN

record document =
  doc_id :: string
  source :: string
  raw_content :: string
  file_type :: file_type

text \<open>
  Modelled from the spec: the Classification of section 3, whose declaration is not under
  \<^verbatim>\<open>src/\<close>; its \<open>file_type\<close>, \<open>source\<close> and \<open>doc_id\<close> carry the prefix \<open>c_\<close> here.
\<close>

record classification =
  c_file_type :: file_type
  intent :: string
  confidence :: "real option"
  c_source :: string
  c_doc_id :: string

text \<open>
  Modelled from the spec: the ProcessingResult of section 3 with its two variants, and the
  parts of each named in sections 4.3 and 4.4; their declarations are not under \<^verbatim>\<open>src/\<close>.
  The values of JSON fields are kept abstract (type \<open>'v\<close>).
\<close>

record 'v standardized_content =
  std_type :: string
  standardized_fields :: "(string \<times> 'v) list"

record validation =
  is_valid :: bool
  missing_fields :: "string list"

record headers =
  sender :: string
  subject :: string
  reference_ids :: "string list"

datatype urgency = Low | Medium | High

record email_analysis =
  urgency :: urgency
  summary :: string

datatype 'v processing_result =
    JSONResult "'v standardized_content" validation
  | EmailResult headers email_analysis string

text \<open>
  Modelled from the spec: the trace event and the MemoryEntry of section 3, whose
  declarations are not under \<^verbatim>\<open>src/\<close>. The trace is kept in arrival order.
\<close>

record trace_event =
  step_name :: string
  timestamp :: nat
  payload_summary :: string

record 'v memory_entry =
  entry_document :: document
  entry_classification :: "classification option"
  entry_processing_result :: "'v processing_result option"
  trace :: "trace_event list"

text \<open>Modelled from the spec: the fatal error kinds of section 7, whose declarations are not under \<^verbatim>\<open>src/\<close>.\<close>

datatype pipeline_error =
    UnsupportedFormat
  | MalformedInput
  | ClassificationUnavailable
  | DuplicateKey
  | NotFound

subsection \<open>Shared Memory\<close>

type_synonym 'v store = "string \<rightharpoonup> 'v memory_entry"

text \<open>
  Modelled from the spec: \<^verbatim>\<open>create(doc_id, document) -> MemoryEntry\<close> of section 4.1, whose
  code is not under \<^verbatim>\<open>src/\<close>; it fails with \<open>DuplicateKey\<close> if the \<open>doc_id\<close> already exists.
\<close>

definition create :: "'v store \<Rightarrow> string \<Rightarrow> document \<Rightarrow> pipeline_error + 'v memory_entry \<times> 'v store" where
  "create m d doc =
     (case m d of
        Some e \<Rightarrow> Inl DuplicateKey
      | None \<Rightarrow>
          (let e = \<lparr>entry_document = doc, entry_classification = None,
                    entry_processing_result = None, trace = []\<rparr>
           in Inr (e, m(d \<mapsto> e))))"

text \<open>
  Modelled from the spec: \<^verbatim>\<open>get(doc_id) -> MemoryEntry\<close> of section 4.1, whose code is not
  under \<^verbatim>\<open>src/\<close>; it fails with \<open>NotFound\<close> if the entry is absent.
\<close>

definition get :: "'v store \<Rightarrow> string \<Rightarrow> pipeline_error + 'v memory_entry" where
  "get m d = (case m d of None \<Rightarrow> Inl NotFound | Some e \<Rightarrow> Inr e)"

text \<open>
  Modelled from the spec: the two structured fields that \<^verbatim>\<open>update\<close> of section 4.1 can
  name, each with the value to store, and the replacement of that field in an entry.
\<close>

datatype 'v field_value =
    ClassificationField classification
  | ProcessingResultField "'v processing_result"

fun set_field :: "'v field_value \<Rightarrow> 'v memory_entry \<Rightarrow> 'v memory_entry" where
  "set_field (ClassificationField c) e = e\<lparr>entry_classification := Some c\<rparr>"
| "set_field (ProcessingResultField r) e = e\<lparr>entry_processing_result := Some r\<rparr>"

text \<open>
  Modelled from the spec: \<^verbatim>\<open>update(doc_id, field, value)\<close> of section 4.1, whose code is not
  under \<^verbatim>\<open>src/\<close>; it replaces the named structured field and appends a trace event, and
  fails with \<open>NotFound\<close> if the entry does not exist. The event (its time stamp and
  summary) is an argument; its place in the list is its sequence number.
\<close>

definition update :: "'v store \<Rightarrow> string \<Rightarrow> 'v field_value \<Rightarrow> trace_event \<Rightarrow> pipeline_error + 'v store" where
  "update m d fv ev =
     (case m d of
        None \<Rightarrow> Inl NotFound
      | Some e \<Rightarrow> Inr (m(d \<mapsto> (set_field fv e)\<lparr>trace := trace e @ [ev]\<rparr>)))"

text \<open>
  Modelled from the spec: \<^verbatim>\<open>append_trace(doc_id, event)\<close> of section 4.1, whose code is not
  under \<^verbatim>\<open>src/\<close>; it succeeds if the entry exists.
\<close>

definition append_trace :: "'v store \<Rightarrow> string \<Rightarrow> trace_event \<Rightarrow> pipeline_error + 'v store" where
  "append_trace m d ev =
     (case m d of
        None \<Rightarrow> Inl NotFound
      | Some e \<Rightarrow> Inr (m(d \<mapsto> e\<lparr>trace := trace e @ [ev]\<rparr>)))"

subsection \<open>What the specification leaves open\<close>

text \<open>Modelled from the spec: the \<open>purpose\<close> enumeration of the capability interface in section 6.\<close>

datatype purpose = Intent | UrgencySummary

text \<open>
  Modelled from the spec: the external interfaces and tables of sections 4 and 6, none of
  them under \<^verbatim>\<open>src/\<close>. The AI capability \<^verbatim>\<open>infer(text, purpose)\<close> answers with a label and an optional
  confidence, or not at all (a time-out, a transient failure); its first argument counts
  the attempts. The JSON parser, the per-intent tables, the header parser, the urgency
  analysis (capability or heuristic, never fatal) and the thread resolution are given
  from outside; \<open>'t\<close> is the store of thread records.
\<close>

record ('v, 't) pipeline_env =
  infer :: "nat \<Rightarrow> string \<Rightarrow> purpose \<Rightarrow> (string \<times> real option) option"
  max_retries :: nat
  excerpt_length :: nat
  parse_json :: "string \<Rightarrow> (string \<times> 'v) list option"
  required_fields :: "string \<Rightarrow> string list"
  field_names :: "string \<Rightarrow> (string \<times> string) list"
  extract_headers :: "string \<Rightarrow> headers"
  analyse_email :: "string \<Rightarrow> email_analysis"
  resolve_thread :: "'t \<Rightarrow> headers \<Rightarrow> string \<times> 't"

subsection \<open>Classifier Agent\<close>

text \<open>
  Modelled from the spec: the bounded retry of section 5 around the capability call, whose
  code is not under \<^verbatim>\<open>src/\<close>: after the first attempt, at most \<open>n\<close> more.
\<close>

fun infer_with_retry ::
  "(nat \<Rightarrow> string \<Rightarrow> purpose \<Rightarrow> (string \<times> real option) option) \<Rightarrow> nat \<Rightarrow> nat \<Rightarrow> string \<Rightarrow> purpose
     \<Rightarrow> (string \<times> real option) option" where
  "infer_with_retry cap 0 k text p = cap k text p"
| "infer_with_retry cap (Suc n) k text p =
     (case cap k text p of
        Some r \<Rightarrow> Some r
      | None \<Rightarrow> infer_with_retry cap n (Suc k) text p)"

text \<open>
  Modelled from the spec: step 3 of section 4.2, whose code is not under \<^verbatim>\<open>src/\<close>: the full
  content for JSON and email, the first N characters for PDF.
\<close>

definition excerpt :: "('v, 't) pipeline_env \<Rightarrow> document \<Rightarrow> string" where
  "excerpt env doc =
     (if file_type doc = PDF then take (excerpt_length env) (raw_content doc)
      else raw_content doc)"

text \<open>
  Modelled from the spec: \<^verbatim>\<open>classify(document) -> Classification\<close> of section 4.2, whose code
  is not under \<^verbatim>\<open>src/\<close>. An \<open>UNKNOWN\<close> file type fails with \<open>UnsupportedFormat\<close>; an
  exhausted capability fails with \<open>ClassificationUnavailable\<close>; else the Classification is
  built and persisted through Shared Memory. The result carries the store as the call
  leaves it.
\<close>

definition classify ::
  "('v, 't) pipeline_env \<Rightarrow> 'v store \<Rightarrow> trace_event \<Rightarrow> document
     \<Rightarrow> (pipeline_error + classification) \<times> 'v store" where
  "classify env m ev doc =
     (if file_type doc = UNKNOWN then (Inl UnsupportedFormat, m)
      else
        (case infer_with_retry (infer env) (max_retries env) 0 (excerpt env doc) Intent of
           None \<Rightarrow> (Inl ClassificationUnavailable, m)
         | Some (label, conf) \<Rightarrow>
             (let c = \<lparr>c_file_type = file_type doc, intent = label, confidence = conf,
                       c_source = source doc, c_doc_id = doc_id doc\<rparr>
              in case update m (doc_id doc) (ClassificationField c) ev of
                   Inl err \<Rightarrow> (Inl err, m)
                 | Inr m' \<Rightarrow> (Inr c, m'))))"

subsection \<open>JSON Agent\<close>

text \<open>
  Modelled from the spec: step 2 of section 4.3, whose code is not under \<^verbatim>\<open>src/\<close>: the
  required fields that the payload lacks are recorded in \<open>missing_fields\<close>, and the payload
  is valid when none is missing.
\<close>

definition validate :: "string list \<Rightarrow> (string \<times> 'v) list \<Rightarrow> validation" where
  "validate required payload =
     (let missing = filter (\<lambda>f. f \<notin> fst ` set payload) required
      in \<lparr>is_valid = (missing = []), missing_fields = missing\<rparr>)"

text \<open>
  Modelled from the spec: step 3 of section 4.3, whose code is not under \<^verbatim>\<open>src/\<close>: the
  fields the intent's table recognises, each under its standardized name, with whatever
  value is present.
\<close>

fun standardize_fields :: "(string \<times> string) list \<Rightarrow> (string \<times> 'v) list \<Rightarrow> (string \<times> 'v) list" where
  "standardize_fields table [] = []"
| "standardize_fields table ((k, v) # kvs) =
     (case map_of table k of
        None \<Rightarrow> standardize_fields table kvs
      | Some k' \<Rightarrow> (k', v) # standardize_fields table kvs)"

text \<open>
  Modelled from the spec: step 4 of sections 4.3 and 4.4, whose code is not under
  \<^verbatim>\<open>src/\<close>: the result is persisted through Shared Memory, and a failure of the store is
  the failure of the agent.
\<close>

definition persist_result ::
  "'v store \<Rightarrow> trace_event \<Rightarrow> document \<Rightarrow> 'v processing_result
     \<Rightarrow> (pipeline_error + 'v processing_result) \<times> 'v store" where
  "persist_result m ev doc r =
     (case update m (doc_id doc) (ProcessingResultField r) ev of
        Inl err \<Rightarrow> (Inl err, m)
      | Inr m' \<Rightarrow> (Inr r, m'))"

text \<open>
  Modelled from the spec: \<^verbatim>\<open>process(document, classification) -> ProcessingResult\<close> of the
  JSON Agent, section 4.3, whose code is not under \<^verbatim>\<open>src/\<close>. Content that does not parse
  fails with \<open>MalformedInput\<close> after a trace event is logged, and no ProcessingResult is
  written; missing fields are not fatal.
\<close>

definition json_process ::
  "('v, 't) pipeline_env \<Rightarrow> 'v store \<Rightarrow> trace_event \<Rightarrow> document \<Rightarrow> classification
     \<Rightarrow> (pipeline_error + 'v processing_result) \<times> 'v store" where
  "json_process env m ev doc c =
     (case parse_json env (raw_content doc) of
        None \<Rightarrow>
          (case append_trace m (doc_id doc) ev of
             Inl err \<Rightarrow> (Inl err, m)
           | Inr m' \<Rightarrow> (Inl MalformedInput, m'))
      | Some payload \<Rightarrow>
          persist_result m ev doc
            (JSONResult
               \<lparr>std_type = intent c,
                standardized_fields = standardize_fields (field_names env (intent c)) payload\<rparr>
               (validate (required_fields env (intent c)) payload)))"

text \<open>
  Modelled from the spec: "removing any required field from a valid payload" of section 8:
  the payload with every member of that name taken out.
\<close>

definition remove_field :: "string \<Rightarrow> (string \<times> 'v) list \<Rightarrow> (string \<times> 'v) list" where
  "remove_field f payload = filter (\<lambda>kv. fst kv \<noteq> f) payload"

subsection \<open>Email Agent\<close>

text \<open>
  Modelled from the spec: \<^verbatim>\<open>process(document, classification) -> ProcessingResult\<close> of the
  Email Agent, section 4.4, whose code is not under \<^verbatim>\<open>src/\<close>: headers, analysis and thread
  are derived, none of them fatal, and the result is persisted with its \<open>thread_id\<close>.
\<close>

definition email_process ::
  "('v, 't) pipeline_env \<Rightarrow> 't \<Rightarrow> 'v store \<Rightarrow> trace_event \<Rightarrow> document \<Rightarrow> classification
     \<Rightarrow> (pipeline_error + 'v processing_result) \<times> 'v store \<times> 't" where
  "email_process env threads m ev doc c =
     (let h = extract_headers env (raw_content doc);
          a = analyse_email env (raw_content doc);
          (thread_id, threads') = resolve_thread env threads h
      in case persist_result m ev doc (EmailResult h a thread_id) of
           (r, m') \<Rightarrow> (r, m', threads'))"

subsection \<open>Routing\<close>

text \<open>Modelled from the spec: the two specialized agents of section 2, whose code is not under \<^verbatim>\<open>src/\<close>.\<close>

datatype agent = JSONAgent | EmailAgent

text \<open>
  Modelled from the spec: the static table from file type to handler of section 9, whose
  code is not under \<^verbatim>\<open>src/\<close>. Section 2 names two specialized agents and section 3 two
  variants of ProcessingResult: a PDF is classified and has no agent of its own.
\<close>

fun route :: "file_type \<Rightarrow> agent option" where
  "route JSON = Some JSONAgent"
| "route EMAIL = Some EmailAgent"
| "route PDF = None"
| "route UNKNOWN = None"

text \<open>
  Modelled from the spec: the linear pipeline of sections 4.5 and 5, whose code is not
  under \<^verbatim>\<open>src/\<close>: the Classifier Agent, then the one specialized agent the file type
  selects. A document is routed only if its classification succeeded.
\<close>

definition classify_then_process ::
  "('v, 't) pipeline_env \<Rightarrow> 't \<Rightarrow> 'v store \<Rightarrow> trace_event \<Rightarrow> trace_event \<Rightarrow> document
     \<Rightarrow> (pipeline_error + classification \<times> 'v processing_result option) \<times> 'v store \<times> 't" where
  "classify_then_process env threads m ev1 ev2 doc =
     (case classify env m ev1 doc of
        (Inl err, m1) \<Rightarrow> (Inl err, m1, threads)
      | (Inr c, m1) \<Rightarrow>
          (case route (file_type doc) of
             None \<Rightarrow> (Inr (c, None), m1, threads)
           | Some JSONAgent \<Rightarrow>
               (case json_process env m1 ev2 doc c of
                  (Inl err, m2) \<Rightarrow> (Inl err, m2, threads)
                | (Inr r, m2) \<Rightarrow> (Inr (c, Some r), m2, threads))
           | Some EmailAgent \<Rightarrow>
               (case email_process env threads m1 ev2 doc c of
                  (Inl err, m2, threads') \<Rightarrow> (Inl err, m2, threads')
                | (Inr r, m2, threads') \<Rightarrow> (Inr (c, Some r), m2, threads'))))"

section \<open>Sample inputs\<close>

text \<open>
  A sample engine whose numbers are the natural numbers, printed in decimal, with
  error wording in the style of V8.
\<close>

fun show_nat :: "nat \<Rightarrow> string" where
  "show_nat n =
     (if n < 10 then [char_of (48 + n)]
      else show_nat (n div 10) @ [char_of (48 + n mod 10)])"

declare show_nat.simps [simp del]

definition sample_engine :: "nat engine" where
  "sample_engine =
     \<lparr>num_falsy = (\<lambda>n. n = 0),
      num_to_string = show_nat,
      nullish_read_message = (\<lambda>v p. ''Cannot read properties of ''
         @ (if v = JNull then ''null'' else ''undefined'') @ '' (reading '' @ p @ '')''),
      to_primitive_message = ''Cannot convert object to primitive value''\<rparr>"

definition app_initial :: "nat app_state" where
  "app_initial = \<lparr>uploadStatus = None, loading = False, analysis = JNull, response = JNull, error = None\<rparr>"

definition du_initial :: du_state where
  "du_initial = \<lparr>du_uploadStatus = None, du_error = None\<rparr>"

definition invoice_pdf :: js_file where
  "invoice_pdf = \<lparr>name = ''invoice.pdf'', type = ''application/pdf''\<rparr>"

definition notes_txt :: js_file where
  "notes_txt = \<lparr>name = ''notes.txt'', type = ''text/plain''\<rparr>"


definition setup_exe :: js_file where
  "setup_exe = \<lparr>name = ''setup.exe'', type = ''application/x-msdownload''\<rparr>"

definition processed_body :: "nat jsval" where
  "processed_body = JObj [(''analysis'', JStr ''Invoice''), (''response'', JStr ''ok'')]"

text \<open>A server that accepts every upload, one that refuses every upload, and a dead network.\<close>

definition fetch_accepts :: "request \<Rightarrow> nat fetch_outcome" where
  "fetch_accepts r = FetchResponse True (JsonResolves processed_body)"

definition fetch_refuses :: "request \<Rightarrow> nat fetch_outcome" where
  "fetch_refuses r = FetchResponse False (JsonResolves (JObj [(''error'', JStr ''No file uploaded'')]))"


text \<open>An \<^verbatim>\<open>onUpload\<close> callback that returns normally, as the \<^verbatim>\<open>async\<close> \<^verbatim>\<open>handleUpload\<close> does.\<close>

definition callback_returns :: "(nat jsval \<Rightarrow> js_error option) option" where
  "callback_returns = Some (\<lambda>data. None)"

text \<open>
  A sample pipeline: a capability whose first attempt times out, a parser that knows two
  invoice payloads, the Invoice schema of the specification, and thread records kept as a
  counter.
\<close>

definition full_invoice_raw :: string where
  "full_invoice_raw = ''{document_id: INV-001, value: 1000.00, timestamp: 2024-03-20}''"

definition partial_invoice_raw :: string where
  "partial_invoice_raw = ''{document_id: INV-001, value: 1000.00}''"

definition full_invoice :: "(string \<times> string) list" where
  "full_invoice =
     [(''document_id'', ''INV-001''), (''value'', ''1000.00''), (''timestamp'', ''2024-03-20'')]"

definition sample_env :: "(string, nat) pipeline_env" where
  "sample_env =
     \<lparr>infer = (\<lambda>k text p. if k = 0 then None else Some (''Invoice'', Some (9 / 10))),
      max_retries = 2,
      excerpt_length = 200,
      parse_json = map_of [(full_invoice_raw, full_invoice),
                           (partial_invoice_raw, remove_field ''timestamp'' full_invoice)],
      required_fields = (\<lambda>i. if i = ''Invoice'' then [''document_id'', ''value'', ''timestamp''] else []),
      field_names = (\<lambda>i. if i = ''Invoice''
                          then [(''document_id'', ''document_id''), (''value'', ''value''),
                                (''timestamp'', ''timestamp'')]
                          else []),
      extract_headers = (\<lambda>text. \<lparr>sender = [], subject = [], reference_ids = []\<rparr>),
      analyse_email = (\<lambda>text. \<lparr>urgency = Low, summary = []\<rparr>),
      resolve_thread = (\<lambda>n h. (''THREAD-'' @ show_nat n, Suc n))\<rparr>"

definition full_doc :: document where
  "full_doc = \<lparr>doc_id = ''doc-1'', source = ''invoice.json'', raw_content = full_invoice_raw,
               file_type = JSON\<rparr>"

definition partial_doc :: document where
  "partial_doc = \<lparr>doc_id = ''doc-2'', source = ''partial.json'',
                  raw_content = partial_invoice_raw, file_type = JSON\<rparr>"

definition exe_doc :: document where
  "exe_doc = \<lparr>doc_id = ''doc-3'', source = ''setup.exe'', raw_content = ''MZ'', file_type = UNKNOWN\<rparr>"

definition invoice_classification :: classification where
  "invoice_classification =
     \<lparr>c_file_type = JSON, intent = ''Invoice'', confidence = Some (9 / 10),
      c_source = ''invoice.json'', c_doc_id = ''doc-1''\<rparr>"

definition new_entry :: "document \<Rightarrow> string memory_entry" where
  "new_entry doc = \<lparr>entry_document = doc, entry_classification = None,
                    entry_processing_result = None, trace = []\<rparr>"

definition step :: "string \<Rightarrow> trace_event" where
  "step n = \<lparr>step_name = n, timestamp = 0, payload_summary = []\<rparr>"

section \<open>Properties of the upload components\<close>

subsection \<open>Auxiliary facts\<close>

lemma get_prop_defined:
  "data \<noteq> JNull \<Longrightarrow> data \<noteq> JUndefined \<Longrightarrow> \<exists>v. get_prop e data p = Inr v"
  by (cases data) auto

lemma onDrop_catch_sets_error:
  "du_uploadStatus (onDrop_catch err s) = Some ''error'' \<and>
   (\<exists>m. m \<noteq> [] \<and> du_error (onDrop_catch err s) = Some m)"
  by (simp add: onDrop_catch_def)

lemma onDrop_try_rejected:
  "onDrop_try e onUpload (FetchRejects err) s = (s, [], Some err)"
  by (simp add: onDrop_try_def)

lemma onDrop_try_not_ok:
  "\<exists>err. onDrop_try e onUpload (FetchResponse False js) s = (s, [], Some err)"
  by (cases js) (auto simp: onDrop_try_def split: sum.splits)

lemma onDrop_try_calls:
  assumes "onDrop_try e onUpload r s = (s', calls, thrown)" and "calls \<noteq> []"
  shows "\<exists>data. r = FetchResponse True (JsonResolves data) \<and> calls = [data]"
  using assms
  by (auto simp: onDrop_try_def Let_def
      split: fetch_outcome.splits json_outcome.splits sum.splits if_splits option.splits)

lemma onDrop_requests:
  "drop_requests (onDrop e fetch onUpload acceptedFiles s) =
     (case acceptedFiles of
        [] \<Rightarrow> []
      | file # rest \<Rightarrow> if type file \<in> set allowedTypes then [upload_request file] else [])"
  by (cases acceptedFiles) (auto simp: onDrop_def split: prod.splits option.splits)

text \<open>
  When the library hands the handler an empty list (every dropped file was refused by the
  \<^verbatim>\<open>accept\<close> option), \<^verbatim>\<open>acceptedFiles[0]\<close> is \<^verbatim>\<open>undefined\<close> and reading its \<^verbatim>\<open>type\<close> throws
  before the \<^verbatim>\<open>try\<close>: nothing is sent, and the status stays at \<^verbatim>\<open>uploading\<close>.
\<close>

lemma onDrop_no_files:
  "onDrop e fetch onUpload [] s =
     \<lparr>drop_state = s\<lparr>du_error := None, du_uploadStatus := Some ''uploading''\<rparr>,
      drop_requests = [], drop_calls = [],
      drop_promise = Some (JsError ''TypeError'' (nullish_read_message e JUndefined ''type''))\<rparr>"
  by (simp add: onDrop_def)

subsection \<open>Unsupported file types\<close>




subsection \<open>One file per request\<close>

text \<open>
  Claim C9. Every upload request the DocumentUpload drop handler builds carries exactly
  one file, the first element of \<^verbatim>\<open>acceptedFiles\<close>, however many files were dropped; the
  handler builds at most one request; both dropzones are configured with
  \<^verbatim>\<open>multiple: false\<close>; and the handler of \<^verbatim>\<open>DocumentUploader.js\<close> passes on the first
  accepted file only.
\<close>

theorem upload_request_has_one_file:
  "(\<forall>r \<in> set (drop_requests (onDrop e fetch onUpload acceptedFiles s)).
      \<exists>file rest. acceptedFiles = file # rest \<and> body r = [(''file'', file)]) \<and>
   length (drop_requests (onDrop e fetch onUpload acceptedFiles s)) \<le> 1 \<and>
   multiple DocumentUpload_options = False \<and>
   multiple DocumentUploader_options = False \<and>
   DocumentUploader_onDrop acceptedFiles = take 1 acceptedFiles"
proof (intro conjI)
  show "\<forall>r \<in> set (drop_requests (onDrop e fetch onUpload acceptedFiles s)).
      \<exists>file rest. acceptedFiles = file # rest \<and> body r = [(''file'', file)]"
    by (cases acceptedFiles) (auto simp: onDrop_requests upload_request_def)
  show "length (drop_requests (onDrop e fetch onUpload acceptedFiles s)) \<le> 1"
    by (cases acceptedFiles) (auto simp: onDrop_requests)
  show "multiple DocumentUpload_options = False"
    by (simp add: DocumentUpload_options_def)
  show "multiple DocumentUploader_options = False"
    by (simp add: DocumentUploader_options_def)
  show "DocumentUploader_onDrop acceptedFiles = take 1 acceptedFiles"
    by (cases acceptedFiles) (simp_all add: DocumentUploader_onDrop_def)
qed

theorem upload_request_has_one_file_witness:
  "map body (drop_requests (onDrop sample_engine fetch_accepts callback_returns [invoice_pdf, notes_txt, setup_exe] du_initial))
     = [[(''file'', invoice_pdf)]] \<and>
   DocumentUploader_onDrop [invoice_pdf, notes_txt, setup_exe] = [invoice_pdf]"
  using upload_request_has_one_file [of sample_engine fetch_accepts callback_returns "[invoice_pdf, notes_txt, setup_exe]" du_initial]
  by (simp add: onDrop_requests upload_request_def invoice_pdf_def allowedTypes_def)

subsection \<open>Failed uploads\<close>

text \<open>
  Claim C10. In the DocumentUpload drop handler, whenever the upload \<^verbatim>\<open>fetch\<close> rejects or
  answers with a response that is not ok, the error state is set to a message, the upload
  status is set to \<^verbatim>\<open>error\<close> and \<^verbatim>\<open>onUpload\<close> is not called; and \<^verbatim>\<open>onUpload\<close> is called
  only when the response is ok, with the parsed body of that response.
\<close>

theorem onDrop_failure_sets_error:
  "(type file \<in> set allowedTypes \<and>
    ((\<exists>err. fetch (upload_request file) = FetchRejects err) \<or>
     (\<exists>js. fetch (upload_request file) = FetchResponse False js))
    \<longrightarrow> (\<exists>m. m \<noteq> [] \<and> du_error (drop_state (onDrop e fetch onUpload (file # rest) s)) = Some m) \<and>
        du_uploadStatus (drop_state (onDrop e fetch onUpload (file # rest) s)) = Some ''error'' \<and>
        drop_calls (onDrop e fetch onUpload (file # rest) s) = []) \<and>
   (drop_calls (onDrop e fetch onUpload acceptedFiles s) \<noteq> []
    \<longrightarrow> (\<exists>first others data. acceptedFiles = first # others \<and>
          fetch (upload_request first) = FetchResponse True (JsonResolves data) \<and>
          drop_calls (onDrop e fetch onUpload acceptedFiles s) = [data]))"
proof (intro conjI impI)
  let ?s1 = "s\<lparr>du_error := None, du_uploadStatus := Some ''uploading''\<rparr>"
  assume a: "type file \<in> set allowedTypes \<and>
    ((\<exists>err. fetch (upload_request file) = FetchRejects err) \<or>
     (\<exists>js. fetch (upload_request file) = FetchResponse False js))"
  then obtain err where t: "onDrop_try e onUpload (fetch (upload_request file)) ?s1 = (?s1, [], Some err)"
    using onDrop_try_rejected onDrop_try_not_ok by metis
  from a have run: "onDrop e fetch onUpload (file # rest) s =
     \<lparr>drop_state = onDrop_catch err ?s1, drop_requests = [upload_request file],
      drop_calls = [], drop_promise = None\<rparr>"
    using t by (simp add: onDrop_def)
  show "\<exists>m. m \<noteq> [] \<and> du_error (drop_state (onDrop e fetch onUpload (file # rest) s)) = Some m"
    using onDrop_catch_sets_error by (simp add: run)
  show "du_uploadStatus (drop_state (onDrop e fetch onUpload (file # rest) s)) = Some ''error''"
    using onDrop_catch_sets_error by (simp add: run)
  show "drop_calls (onDrop e fetch onUpload (file # rest) s) = []"
    by (simp add: run)
next
  assume c: "drop_calls (onDrop e fetch onUpload acceptedFiles s) \<noteq> []"
  let ?s1 = "s\<lparr>du_error := None, du_uploadStatus := Some ''uploading''\<rparr>"
  from c obtain first others where fs: "acceptedFiles = first # others"
    by (cases acceptedFiles) (auto simp: onDrop_def)
  with c have ok: "type first \<in> set allowedTypes"
    by (auto simp: onDrop_def Let_def split: if_splits)
  obtain s' calls thrown where
    t: "onDrop_try e onUpload (fetch (upload_request first)) ?s1 = (s', calls, thrown)"
    by (cases "onDrop_try e onUpload (fetch (upload_request first)) ?s1") auto
  have run: "drop_calls (onDrop e fetch onUpload acceptedFiles s) = calls"
    using ok t by (simp add: fs onDrop_def split: option.splits)
  with c have "calls \<noteq> []" by simp
  from onDrop_try_calls [OF t this] obtain data where
    "fetch (upload_request first) = FetchResponse True (JsonResolves data)" "calls = [data]"
    by auto
  with fs run show "\<exists>first others data. acceptedFiles = first # others \<and>
          fetch (upload_request first) = FetchResponse True (JsonResolves data) \<and>
          drop_calls (onDrop e fetch onUpload acceptedFiles s) = [data]"
    by auto
qed

theorem onDrop_failure_sets_error_witness:
  "type invoice_pdf \<in> set allowedTypes \<and>
   fetch_refuses (upload_request invoice_pdf) = FetchResponse False (JsonResolves (JObj [(''error'', JStr ''No file uploaded'')])) \<and>
   drop_state (onDrop sample_engine fetch_refuses callback_returns [invoice_pdf, notes_txt] du_initial)
     = \<lparr>du_uploadStatus = Some ''error'', du_error = Some ''No file uploaded''\<rparr> \<and>
   drop_calls (onDrop sample_engine fetch_refuses callback_returns [invoice_pdf, notes_txt] du_initial) = [] \<and>
   drop_calls (onDrop sample_engine fetch_accepts callback_returns [invoice_pdf, notes_txt] du_initial) = [processed_body] \<and>
   fetch_accepts (upload_request invoice_pdf) = FetchResponse True (JsonResolves processed_body)"
  using onDrop_failure_sets_error [of invoice_pdf fetch_refuses sample_engine callback_returns "[notes_txt]" du_initial]
    onDrop_failure_sets_error [of invoice_pdf fetch_accepts sample_engine callback_returns "[notes_txt]" du_initial "[invoice_pdf, notes_txt]"]
  by (simp add: onDrop_def onDrop_try_def onDrop_catch_def allowedTypes_def invoice_pdf_def
      fetch_refuses_def fetch_accepts_def callback_returns_def du_initial_def processed_body_def)

subsection \<open>The health check\<close>




subsection \<open>The upload callback of the application\<close>

text \<open>
  Claim C8 as stated, that \<^verbatim>\<open>handleUpload\<close> ends with the success status for every
  argument and never enters its \<^verbatim>\<open>catch\<close> branch, fails for \<^verbatim>\<open>null\<close>, the body of a
  response whose JSON text is \<^verbatim>\<open>null\<close>: reading \<^verbatim>\<open>data.analysis\<close> throws, and the
  \<^verbatim>\<open>catch\<close> branch sets the error status.
\<close>

theorem handleUpload_null_counterexample:
  "map_option status_type (uploadStatus (fst (handleUpload sample_engine JNull app_initial))) = Some ''error'' \<and>
   error (fst (handleUpload sample_engine JNull app_initial)) = Some ''Cannot read properties of null (reading analysis)''"
  by (simp add: handleUpload_def handleUpload_try_def handleUpload_catch_def resetState_def
      sample_engine_def app_initial_def Let_def)

text \<open>
  Claim C8, amended. For every argument other than \<^verbatim>\<open>null\<close> and \<^verbatim>\<open>undefined\<close>,
  \<^verbatim>\<open>handleUpload\<close> ends with the success status; for \<^verbatim>\<open>null\<close> and \<^verbatim>\<open>undefined\<close> the read of
  \<^verbatim>\<open>data.analysis\<close> throws a \<^verbatim>\<open>TypeError\<close> and the \<^verbatim>\<open>catch\<close> branch sets the error status
  with that error's message; in every case \<^verbatim>\<open>loading\<close> ends false.
\<close>

theorem handleUpload_outcome:
  "loading (fst (handleUpload e data s)) = False \<and>
   uploadStatus (fst (handleUpload e data s)) =
     (if data = JNull \<or> data = JUndefined
      then Some \<lparr>status_type = ''error'',
                 status_message = (if nullish_read_message e data ''analysis'' \<noteq> []
                                   then nullish_read_message e data ''analysis''
                                   else ''Error uploading document. Please try again.'')\<rparr>
      else Some \<lparr>status_type = ''success'',
                 status_message = ''Document uploaded and processed successfully!''\<rparr>)"
proof (cases "data = JNull \<or> data = JUndefined")
  case True
  then show ?thesis
    by (auto simp: handleUpload_def handleUpload_try_def handleUpload_catch_def resetState_def Let_def)
next
  case False
  then obtain a r where "get_prop e data ''analysis'' = Inr a" "get_prop e data ''response'' = Inr r"
    using get_prop_defined by blast
  with False show ?thesis
    by (simp add: handleUpload_def handleUpload_try_def resetState_def)
qed

theorem handleUpload_outcome_witness:
  "uploadStatus (fst (handleUpload sample_engine processed_body app_initial)) =
     Some \<lparr>status_type = ''success'',
           status_message = ''Document uploaded and processed successfully!''\<rparr> \<and>
   loading (fst (handleUpload sample_engine processed_body app_initial)) = False \<and>
   loading (fst (handleUpload sample_engine JUndefined app_initial)) = False"
  using handleUpload_outcome [of sample_engine processed_body app_initial]
    handleUpload_outcome [of sample_engine JUndefined app_initial]
  by (simp add: processed_body_def)

section \<open>Properties of the document pipeline\<close>

subsection \<open>Auxiliary facts\<close>

lemma validate_complete:
  "set required \<subseteq> fst ` set payload \<Longrightarrow> validate required payload = \<lparr>is_valid = True, missing_fields = []\<rparr>"
  by (auto simp: validate_def filter_empty_conv)

lemma keys_remove_field: "fst ` set (remove_field f payload) = fst ` set payload - {f}"
  by (auto simp: remove_field_def)

lemma validate_removed:
  assumes "set required \<subseteq> fst ` set payload" and "f \<in> set required"
  shows "is_valid (validate required (remove_field f payload)) = False"
    and "set (missing_fields (validate required (remove_field f payload))) = {f}"
  using assms by (auto simp: validate_def Let_def keys_remove_field filter_empty_conv)

lemma standardize_fields_present:
  "(k, v) \<in> set payload \<Longrightarrow> map_of table k = Some k' \<Longrightarrow> (k', v) \<in> set (standardize_fields table payload)"
  by (induction table payload rule: standardize_fields.induct) (auto split: option.splits)

lemma json_process_parsed:
  assumes "parse_json env (raw_content doc) = Some payload" and "m (doc_id doc) = Some e"
  shows "json_process env m ev doc c =
     (Inr (JSONResult \<lparr>std_type = intent c,
                       standardized_fields = standardize_fields (field_names env (intent c)) payload\<rparr>
                      (validate (required_fields env (intent c)) payload)),
      m(doc_id doc \<mapsto> e\<lparr>entry_processing_result :=
          Some (JSONResult \<lparr>std_type = intent c,
                       standardized_fields = standardize_fields (field_names env (intent c)) payload\<rparr>
                      (validate (required_fields env (intent c)) payload)),
          trace := trace e @ [ev]\<rparr>))"
  using assms by (simp add: json_process_def persist_result_def update_def)

lemma update_present:
  "m d = Some e \<Longrightarrow> update m d fv ev = Inr (m(d \<mapsto> (set_field fv e)\<lparr>trace := trace e @ [ev]\<rparr>))"
  by (simp add: update_def)

lemma update_absent: "m d = None \<Longrightarrow> update m d fv ev = Inl NotFound"
  by (simp add: update_def)

lemma classify_cases:
  assumes "m (doc_id doc) = Some e"
  shows "(\<exists>err. classify env m ev doc = (Inl err, m)) \<or>
         (\<exists>c. c_doc_id c = doc_id doc \<and> c_file_type c = file_type doc \<and> c_source c = source doc \<and>
              classify env m ev doc =
                (Inr c, m(doc_id doc \<mapsto> e\<lparr>entry_classification := Some c, trace := trace e @ [ev]\<rparr>)))"
  using assms by (auto simp: classify_def update_present Let_def split: option.splits)

lemma persist_result_present:
  "m (doc_id doc) = Some e \<Longrightarrow>
   persist_result m ev doc r =
     (Inr r, m(doc_id doc \<mapsto> e\<lparr>entry_processing_result := Some r, trace := trace e @ [ev]\<rparr>))"
  by (simp add: persist_result_def update_present)

lemma json_process_cases:
  assumes "m (doc_id doc) = Some e"
  shows "json_process env m ev doc c = (Inl MalformedInput, m(doc_id doc \<mapsto> e\<lparr>trace := trace e @ [ev]\<rparr>)) \<or>
         (\<exists>r. json_process env m ev doc c =
            (Inr r, m(doc_id doc \<mapsto> e\<lparr>entry_processing_result := Some r, trace := trace e @ [ev]\<rparr>)))"
  using assms by (auto simp: json_process_def append_trace_def persist_result_present split: option.splits)

lemma email_process_present:
  assumes "m (doc_id doc) = Some e"
  shows "\<exists>r threads'. email_process env threads m ev doc c =
            (Inr r, m(doc_id doc \<mapsto> e\<lparr>entry_processing_result := Some r, trace := trace e @ [ev]\<rparr>), threads')"
  using assms by (simp add: email_process_def persist_result_present Let_def split: prod.splits)

lemma create_fresh:
  "create m0 d doc = Inr (e0, m) \<Longrightarrow>
   m0 d = None \<and> e0 = \<lparr>entry_document = doc, entry_classification = None,
                           entry_processing_result = None, trace = []\<rparr> \<and> m = m0(d \<mapsto> e0)"
  by (auto simp: create_def Let_def split: option.splits)

lemma classify_absent:
  assumes "m (doc_id doc) = None" and "file_type doc \<noteq> UNKNOWN"
    and "infer_with_retry (infer env) (max_retries env) 0 (excerpt env doc) Intent \<noteq> None"
  shows "classify env m ev doc = (Inl NotFound, m)"
  using assms by (auto simp: classify_def update_absent split: option.splits)

text \<open>
  A document of unknown type is rejected by the Classifier Agent: the store is left as it
  was, so no Classification record exists, and no agent runs.
\<close>

lemma unsupported_format_rejected:
  "file_type doc = UNKNOWN \<Longrightarrow>
   classify_then_process env threads m ev1 ev2 doc = (Inl UnsupportedFormat, m, threads)"
  by (simp add: classify_then_process_def classify_def)

lemma unsupported_format_rejected_example:
  "classify_then_process sample_env 0 [''doc-3'' \<mapsto> new_entry exe_doc]
     (step ''classify'') (step ''json_agent'') exe_doc =
   (Inl UnsupportedFormat, [''doc-3'' \<mapsto> new_entry exe_doc], 0)"
  by (simp add: unsupported_format_rejected exe_doc_def)

subsection \<open>Validation by the JSON Agent\<close>

text \<open>
  Claim C2. For a JSON payload with a declared intent, stored under its \<open>doc_id\<close>: if all
  fields required for the intent are present, the JSON Agent's validation is valid with
  no missing field; and if a required field is removed from such a payload, the validation
  is not valid and lists that field as missing, while a standardized result is still
  returned, holding every remaining field that the intent's table recognises.
\<close>

theorem json_agent_partial_success:
  assumes present: "m (doc_id doc) \<noteq> None"
    and valid: "set (required_fields env (intent c)) \<subseteq> fst ` set payload"
  shows "(parse_json env (raw_content doc) = Some payload \<longrightarrow>
            (\<exists>sc m'. json_process env m ev doc c =
                (Inr (JSONResult sc \<lparr>is_valid = True, missing_fields = []\<rparr>), m'))) \<and>
         (f \<in> set (required_fields env (intent c)) \<and>
          parse_json env (raw_content doc) = Some (remove_field f payload) \<longrightarrow>
            (\<exists>sc v m'. json_process env m ev doc c = (Inr (JSONResult sc v), m') \<and>
                is_valid v = False \<and> f \<in> set (missing_fields v) \<and>
                (\<forall>kv \<in> set (remove_field f payload). \<forall>k'.
                    map_of (field_names env (intent c)) (fst kv) = Some k' \<longrightarrow>
                    (k', snd kv) \<in> set (standardized_fields sc))))"
proof (intro conjI impI)
  from present obtain e where e: "m (doc_id doc) = Some e" by auto
  {
    assume p: "parse_json env (raw_content doc) = Some payload"
    show "\<exists>sc m'. json_process env m ev doc c =
                (Inr (JSONResult sc \<lparr>is_valid = True, missing_fields = []\<rparr>), m')"
      using json_process_parsed [where m = m and env = env, OF p e] validate_complete [OF valid]
      by simp
  }
  {
    assume a: "f \<in> set (required_fields env (intent c)) \<and>
          parse_json env (raw_content doc) = Some (remove_field f payload)"
    let ?sc = "\<lparr>std_type = intent c, standardized_fields =
                  standardize_fields (field_names env (intent c)) (remove_field f payload)\<rparr>"
    let ?v = "validate (required_fields env (intent c)) (remove_field f payload)"
    from a have p: "parse_json env (raw_content doc) = Some (remove_field f payload)"
      by simp
    have run: "fst (json_process env m ev doc c) = Inr (JSONResult ?sc ?v)"
      using json_process_parsed [where m = m and env = env, OF p e] by simp
    have "is_valid ?v = False" and "f \<in> set (missing_fields ?v)"
      using a validate_removed [OF valid] by auto
    moreover have "\<forall>kv \<in> set (remove_field f payload). \<forall>k'.
                    map_of (field_names env (intent c)) (fst kv) = Some k' \<longrightarrow>
                    (k', snd kv) \<in> set (standardized_fields ?sc)"
      using standardize_fields_present by fastforce
    ultimately show "\<exists>sc v m'. json_process env m ev doc c = (Inr (JSONResult sc v), m') \<and>
                is_valid v = False \<and> f \<in> set (missing_fields v) \<and>
                (\<forall>kv \<in> set (remove_field f payload). \<forall>k'.
                    map_of (field_names env (intent c)) (fst kv) = Some k' \<longrightarrow>
                    (k', snd kv) \<in> set (standardized_fields sc))"
      using run by (metis prod.collapse)
  }
qed

theorem json_agent_partial_success_witness:
  "[''doc-1'' \<mapsto> new_entry full_doc, ''doc-2'' \<mapsto> new_entry partial_doc] (doc_id partial_doc) \<noteq> None \<and>
   set (required_fields sample_env (intent invoice_classification)) \<subseteq> fst ` set full_invoice \<and>
   parse_json sample_env (raw_content full_doc) = Some full_invoice \<and>
   parse_json sample_env (raw_content partial_doc) = Some (remove_field ''timestamp'' full_invoice) \<and>
   fst (json_process sample_env [''doc-1'' \<mapsto> new_entry full_doc, ''doc-2'' \<mapsto> new_entry partial_doc]
          (step ''json_agent'') full_doc invoice_classification) =
     Inr (JSONResult \<lparr>std_type = ''Invoice'', standardized_fields = full_invoice\<rparr>
            \<lparr>is_valid = True, missing_fields = []\<rparr>) \<and>
   fst (json_process sample_env [''doc-1'' \<mapsto> new_entry full_doc, ''doc-2'' \<mapsto> new_entry partial_doc]
          (step ''json_agent'') partial_doc invoice_classification) =
     Inr (JSONResult \<lparr>std_type = ''Invoice'',
                      standardized_fields = [(''document_id'', ''INV-001''), (''value'', ''1000.00'')]\<rparr>
            \<lparr>is_valid = False, missing_fields = [''timestamp'']\<rparr>)"
  using json_agent_partial_success [where m = "[''doc-1'' \<mapsto> new_entry full_doc, ''doc-2'' \<mapsto> new_entry partial_doc]"
      and doc = full_doc and env = sample_env and c = invoice_classification
      and payload = full_invoice and f = "''timestamp''" and ev = "step ''json_agent''"]
    json_agent_partial_success [where m = "[''doc-1'' \<mapsto> new_entry full_doc, ''doc-2'' \<mapsto> new_entry partial_doc]"
      and doc = partial_doc and env = sample_env and c = invoice_classification
      and payload = full_invoice and f = "''timestamp''" and ev = "step ''json_agent''"]
  by (simp add: sample_env_def full_doc_def partial_doc_def invoice_classification_def
      full_invoice_def remove_field_def full_invoice_raw_def partial_invoice_raw_def
      json_process_def persist_result_def update_def validate_def new_entry_def)

subsection \<open>Errors of Shared Memory\<close>

text \<open>
  Claim C3. For every \<open>doc_id\<close>, \<open>create\<close> fails with \<open>DuplicateKey\<close> exactly when the
  \<open>doc_id\<close> already exists (and otherwise stores the new entry), \<open>get\<close> fails with
  \<open>NotFound\<close> exactly when the entry is absent (and otherwise returns it), and \<open>update\<close>
  fails with \<open>NotFound\<close> when the entry does not exist. The error is surfaced, not
  swallowed: the pipeline and each agent, run on a document that has no entry, end with
  \<open>NotFound\<close>.
\<close>

theorem shared_memory_errors:
  "(create m d doc = Inl DuplicateKey) = (d \<in> dom m) \<and>
   (d \<notin> dom m \<longrightarrow> (\<exists>e. create m d doc = Inr (e, m(d \<mapsto> e)))) \<and>
   (get m d = Inl NotFound) = (d \<notin> dom m) \<and>
   (\<forall>e. m d = Some e \<longrightarrow> get m d = Inr e) \<and>
   (update m d fv ev = Inl NotFound) = (d \<notin> dom m) \<and>
   (doc_id doc \<notin> dom m \<and> file_type doc \<noteq> UNKNOWN \<and>
    infer_with_retry (infer env) (max_retries env) 0 (excerpt env doc) Intent \<noteq> None
      \<longrightarrow> fst (classify_then_process env threads m ev ev2 doc) = Inl NotFound) \<and>
   (doc_id doc \<notin> dom m \<longrightarrow> fst (json_process env m ev doc c) = Inl NotFound) \<and>
   (doc_id doc \<notin> dom m \<longrightarrow> fst (email_process env threads m ev doc c) = Inl NotFound)"
proof (intro conjI impI allI)
  show "(create m d doc = Inl DuplicateKey) = (d \<in> dom m)"
    by (auto simp: create_def Let_def split: option.splits)
  show "(get m d = Inl NotFound) = (d \<notin> dom m)"
    by (auto simp: get_def split: option.splits)
  show "(update m d fv ev = Inl NotFound) = (d \<notin> dom m)"
    by (auto simp: update_def split: option.splits)
next
  assume "d \<notin> dom m"
  then show "\<exists>e. create m d doc = Inr (e, m(d \<mapsto> e))"
    by (auto simp: create_def Let_def)
next
  fix e assume "m d = Some e"
  then show "get m d = Inr e" by (simp add: get_def)
next
  assume "doc_id doc \<notin> dom m \<and> file_type doc \<noteq> UNKNOWN \<and>
    infer_with_retry (infer env) (max_retries env) 0 (excerpt env doc) Intent \<noteq> None"
  then have "classify env m ev doc = (Inl NotFound, m)"
    by (intro classify_absent) (auto simp: domIff)
  then show "fst (classify_then_process env threads m ev ev2 doc) = Inl NotFound"
    by (simp add: classify_then_process_def)
next
  assume "doc_id doc \<notin> dom m"
  then have "m (doc_id doc) = None" by (simp add: domIff)
  then show "fst (json_process env m ev doc c) = Inl NotFound"
    by (simp add: json_process_def append_trace_def persist_result_def update_absent split: option.splits)
next
  assume "doc_id doc \<notin> dom m"
  then have "m (doc_id doc) = None" by (simp add: domIff)
  then show "fst (email_process env threads m ev doc c) = Inl NotFound"
    by (simp add: email_process_def persist_result_def update_absent Let_def split: prod.splits)
qed

theorem shared_memory_errors_witness:
  "create [''doc-1'' \<mapsto> new_entry full_doc] ''doc-1'' full_doc = Inl DuplicateKey \<and>
   get (Map.empty :: string store) ''doc-1'' = Inl NotFound \<and>
   get [''doc-1'' \<mapsto> new_entry full_doc] ''doc-1'' = Inr (new_entry full_doc) \<and>
   update (Map.empty :: string store) ''doc-1'' (ClassificationField invoice_classification)
     (step ''classify'') = Inl NotFound \<and>
   fst (classify_then_process sample_env 0 Map.empty (step ''classify'') (step ''json_agent'') full_doc)
     = Inl NotFound"
proof -
  have answered: "infer_with_retry (infer sample_env) (max_retries sample_env) 0
      (excerpt sample_env full_doc) Intent \<noteq> None"
    by (simp add: sample_env_def numeral_2_eq_2)
  have supported: "file_type full_doc \<noteq> UNKNOWN"
    by (simp add: full_doc_def)
  show ?thesis
    using answered supported
      shared_memory_errors [where m = "[''doc-1'' \<mapsto> new_entry full_doc]" and d = "''doc-1''"
        and doc = full_doc and env = sample_env]
      shared_memory_errors [where m = "Map.empty :: string store" and d = "''doc-1''"
        and doc = full_doc and env = sample_env and threads = 0
        and fv = "ClassificationField invoice_classification"
        and ev = "step ''classify''" and ?ev2.0 = "step ''json_agent''"]
    by (simp add: full_doc_def)
qed

subsection \<open>The document identifier\<close>

text \<open>
  Claim C4. For a document entered into Shared Memory under its \<open>doc_id\<close>, running
  \<open>classify\<close> followed by the specialized agent that matches its file type keeps the
  original \<open>doc_id\<close> in every record: the memory entry under that \<open>doc_id\<close> still holds
  the document as it was, every Classification stored or returned carries that \<open>doc_id\<close>,
  the returned ProcessingResult is the one stored in that entry, and no entry under
  another \<open>doc_id\<close> is touched.
\<close>

theorem doc_id_preserved:
  assumes made: "create m0 (doc_id doc) doc = Inr (e0, m)"
    and run: "classify_then_process env threads m ev1 ev2 doc = (res, m', threads')"
  shows "\<exists>e'. m' (doc_id doc) = Some e' \<and> entry_document e' = doc \<and>
           (\<forall>c. entry_classification e' = Some c \<longrightarrow> c_doc_id c = doc_id doc) \<and>
           (\<forall>c r. res = Inr (c, r) \<longrightarrow>
              c_doc_id c = doc_id doc \<and> entry_classification e' = Some c \<and>
              entry_processing_result e' = r) \<and>
           (\<forall>d. d \<noteq> doc_id doc \<longrightarrow> m' d = m0 d)"
proof -
  from create_fresh [OF made] have e0: "entry_document e0 = doc" "entry_classification e0 = None"
    "entry_processing_result e0 = None" and m: "m = m0(doc_id doc \<mapsto> e0)"
    by auto
  then have here: "m (doc_id doc) = Some e0" by simp
  from classify_cases [where m = m and env = env and ev = ev1, OF here] show ?thesis
  proof
    assume "\<exists>err. classify env m ev1 doc = (Inl err, m)"
    with run have "m' = m" by (auto simp: classify_then_process_def)
    moreover from \<open>\<exists>err. classify env m ev1 doc = (Inl err, m)\<close> run have "\<exists>err. res = Inl err"
      by (auto simp: classify_then_process_def)
    ultimately show ?thesis using e0 m by auto
  next
    assume "\<exists>c. c_doc_id c = doc_id doc \<and> c_file_type c = file_type doc \<and> c_source c = source doc \<and>
              classify env m ev1 doc =
                (Inr c, m(doc_id doc \<mapsto> e0\<lparr>entry_classification := Some c, trace := trace e0 @ [ev1]\<rparr>))"
    then obtain c where c: "c_doc_id c = doc_id doc"
      and cl: "classify env m ev1 doc =
                (Inr c, m(doc_id doc \<mapsto> e0\<lparr>entry_classification := Some c, trace := trace e0 @ [ev1]\<rparr>))"
      by auto
    let ?e1 = "e0\<lparr>entry_classification := Some c, trace := trace e0 @ [ev1]\<rparr>"
    let ?m1 = "m(doc_id doc \<mapsto> ?e1)"
    have h1: "?m1 (doc_id doc) = Some ?e1" by simp
    show ?thesis
    proof (cases "route (file_type doc)")
      case None
      with run cl have "res = Inr (c, None)" "m' = ?m1"
        by (auto simp: classify_then_process_def)
      then show ?thesis using e0 m c by auto
    next
      case (Some a)
      show ?thesis
      proof (cases a)
        case JSONAgent
        from json_process_cases [where m = "?m1" and env = env and ev = ev2 and c = c, OF h1] show ?thesis
        proof
          assume j: "json_process env ?m1 ev2 doc c =
            (Inl MalformedInput, ?m1(doc_id doc \<mapsto> ?e1\<lparr>trace := trace ?e1 @ [ev2]\<rparr>))"
          with run cl Some JSONAgent have "res = Inl MalformedInput"
            "m' = ?m1(doc_id doc \<mapsto> ?e1\<lparr>trace := trace ?e1 @ [ev2]\<rparr>)"
            by (auto simp: classify_then_process_def)
          then show ?thesis using e0 m c by auto
        next
          assume "\<exists>r. json_process env ?m1 ev2 doc c =
            (Inr r, ?m1(doc_id doc \<mapsto> ?e1\<lparr>entry_processing_result := Some r, trace := trace ?e1 @ [ev2]\<rparr>))"
          then obtain r where j: "json_process env ?m1 ev2 doc c =
            (Inr r, ?m1(doc_id doc \<mapsto> ?e1\<lparr>entry_processing_result := Some r, trace := trace ?e1 @ [ev2]\<rparr>))"
            by auto
          with run cl Some JSONAgent have "res = Inr (c, Some r)"
            "m' = ?m1(doc_id doc \<mapsto> ?e1\<lparr>entry_processing_result := Some r, trace := trace ?e1 @ [ev2]\<rparr>)"
            by (auto simp: classify_then_process_def)
          then show ?thesis using e0 m c by auto
        qed
      next
        case EmailAgent
        from email_process_present [where m = "?m1" and env = env and ev = ev2 and c = c and threads = threads, OF h1]
        obtain r t where
          j: "email_process env threads ?m1 ev2 doc c =
            (Inr r, ?m1(doc_id doc \<mapsto> ?e1\<lparr>entry_processing_result := Some r, trace := trace ?e1 @ [ev2]\<rparr>), t)"
          by auto
        with run cl Some EmailAgent have "res = Inr (c, Some r)"
          "m' = ?m1(doc_id doc \<mapsto> ?e1\<lparr>entry_processing_result := Some r, trace := trace ?e1 @ [ev2]\<rparr>)"
          by (auto simp: classify_then_process_def)
        then show ?thesis using e0 m c by auto
      qed
    qed
  qed
qed

theorem doc_id_preserved_witness:
  "create Map.empty (doc_id full_doc) full_doc =
     Inr (new_entry full_doc, [''doc-1'' \<mapsto> new_entry full_doc]) \<and>
   fst (classify_then_process sample_env 0 [''doc-1'' \<mapsto> new_entry full_doc]
          (step ''classify'') (step ''json_agent'') full_doc) =
     Inr (invoice_classification,
          Some (JSONResult \<lparr>std_type = ''Invoice'', standardized_fields = full_invoice\<rparr>
                  \<lparr>is_valid = True, missing_fields = []\<rparr>)) \<and>
   c_doc_id invoice_classification = doc_id full_doc \<and>
   (\<exists>e'. fst (snd (classify_then_process sample_env 0 [''doc-1'' \<mapsto> new_entry full_doc]
                    (step ''classify'') (step ''json_agent'') full_doc)) ''doc-1'' = Some e' \<and>
         entry_document e' = full_doc \<and>
         entry_classification e' = Some invoice_classification)"
proof -
  let ?m = "[''doc-1'' \<mapsto> new_entry full_doc] :: string store"
  let ?e1 = "(new_entry full_doc)\<lparr>entry_classification := Some invoice_classification,
               trace := [step ''classify'']\<rparr>"
  let ?m1 = "[''doc-1'' \<mapsto> ?e1] :: string store"
  let ?run = "classify_then_process sample_env 0 ?m (step ''classify'') (step ''json_agent'') full_doc"
  have made: "create Map.empty (doc_id full_doc) full_doc = Inr (new_entry full_doc, ?m)"
    by (simp add: create_def new_entry_def full_doc_def Let_def)
  have answered: "infer_with_retry (infer sample_env) (max_retries sample_env) 0
      (excerpt sample_env full_doc) Intent = Some (''Invoice'', Some (9 / 10))"
    by (simp add: sample_env_def numeral_2_eq_2)
  have classified: "classify sample_env ?m (step ''classify'') full_doc =
      (Inr invoice_classification, ?m1)"
    by (simp add: classify_def answered update_def Let_def)
       (simp add: full_doc_def invoice_classification_def new_entry_def)
  have parsed: "parse_json sample_env (raw_content full_doc) = Some full_invoice"
    by (simp add: sample_env_def full_doc_def)
  have complete: "set (required_fields sample_env ''Invoice'') \<subseteq> fst ` set full_invoice"
    by (simp add: sample_env_def full_invoice_def)
  have fields: "standardize_fields (field_names sample_env ''Invoice'') full_invoice = full_invoice"
    by (simp add: sample_env_def full_invoice_def)
  have named: "intent invoice_classification = ''Invoice''"
    by (simp add: invoice_classification_def)
  have stored: "?m1 (doc_id full_doc) = Some ?e1"
    by (simp add: full_doc_def)
  obtain m2 where processed: "json_process sample_env ?m1 (step ''json_agent'') full_doc
        invoice_classification =
      (Inr (JSONResult \<lparr>std_type = ''Invoice'', standardized_fields = full_invoice\<rparr>
                  \<lparr>is_valid = True, missing_fields = []\<rparr>), m2)"
    using json_process_parsed [where m = "?m1" and env = sample_env
        and c = invoice_classification and ev = "step ''json_agent''", OF parsed stored]
    by (simp add: fields named validate_complete [OF complete])
  have routed: "route (file_type full_doc) = Some JSONAgent"
    by (simp add: full_doc_def)
  have res: "fst ?run =
     Inr (invoice_classification,
          Some (JSONResult \<lparr>std_type = ''Invoice'', standardized_fields = full_invoice\<rparr>
                  \<lparr>is_valid = True, missing_fields = []\<rparr>))"
    by (simp add: classify_then_process_def classified routed processed)
  have run: "?run = (fst ?run, fst (snd ?run), snd (snd ?run))"
    by simp
  from doc_id_preserved [OF made run] res made show ?thesis
    by (auto simp: full_doc_def invoice_classification_def)
qed

end
